theory Spec2Isabelle
  imports Complex_Main
begin

section \<open>JavaScript values shared by the pages\<close>

text \<open>
  A number of the data is given by the rational number its decimal literal denotes, which is
  also what the page prints for it. A JavaScript number is an IEEE 754 double: arithmetic first
  rounds the literal to the nearest double and rounds every result again; the one arithmetic
  expression of the pages is \<^verbatim>\<open>(player.efg * 100).toFixed(1)\<close>. A string is a list of bytes, a
  non-ASCII letter being its UTF-8 encoding.
\<close>

type_synonym number = rat

datatype js_value = Undefined | JsString string | JsNumber number

datatype js_error = TypeError string | JsError string

definition digit :: "nat \<Rightarrow> char" where
  "digit n = char_of (48 + n)"

function string_of_nat :: "nat \<Rightarrow> string" where
  "string_of_nat n =
     (if n < 10 then [digit n] else string_of_nat (n div 10) @ [digit (n mod 10)])"
  by pat_completeness auto
termination
  by (relation "measure id") auto

definition pad_zeros :: "nat \<Rightarrow> string \<Rightarrow> string" where
  "pad_zeros d s = replicate (d - length s) (CHR ''0'') @ s"

text \<open>A double: a finite value, given exactly, an infinity or NaN.\<close>

datatype double = Finite rat | PosInfinity | NegInfinity | NaN

definition pow2 :: "int \<Rightarrow> rat" where
  "pow2 e = (if 0 \<le> e then 2 ^ nat e else 1 / 2 ^ nat (- e))"

function bit_length :: "nat \<Rightarrow> nat" where
  "bit_length n = (if n = 0 then 0 else Suc (bit_length (n div 2)))"
  by pat_completeness auto
termination
  by (relation "measure id") auto

text \<open>The exponent \<open>e\<close> with \<open>2^e \<le> x < 2^(e+1)\<close>, for a positive \<open>x\<close>.\<close>

definition floor_log2 :: "rat \<Rightarrow> int" where
  "floor_log2 x =
     (if 1 \<le> x then int (bit_length (nat \<lfloor>x\<rfloor>)) - 1
      else let k = int (bit_length (nat \<lfloor>1 / x\<rfloor>)) - 1
           in if 1 / x = pow2 k then - k else - k - 1)"

definition round_half_even :: "rat \<Rightarrow> int" where
  "round_half_even x =
     (let f = \<lfloor>x\<rfloor>; r = x - of_int f
      in if r < 1 / 2 then f else if 1 / 2 < r then f + 1 else if even f then f else f + 1)"

text \<open>
  Rounding to the nearest double, ties to even: 53 significant bits, the spacing of the
  subnormal numbers below \<open>2^-1022\<close>, and an infinity from \<open>2^1024\<close> on.
\<close>

definition to_double :: "rat \<Rightarrow> double" where
  "to_double x =
     (if x = 0 then Finite 0
      else let q = pow2 (max (floor_log2 \<bar>x\<bar>) (- 1022) - 52);
               r = of_int (round_half_even (\<bar>x\<bar> / q)) * q
           in if pow2 1024 \<le> r then (if x < 0 then NegInfinity else PosInfinity)
              else Finite (if x < 0 then - r else r))"

text \<open>The product of two doubles: the exact product, rounded.\<close>

fun double_times :: "double \<Rightarrow> double \<Rightarrow> double" where
  "double_times (Finite a) (Finite b) = to_double (a * b)"
| "double_times NaN y = NaN"
| "double_times x NaN = NaN"
| "double_times (Finite a) PosInfinity =
     (if a = 0 then NaN else if a < 0 then NegInfinity else PosInfinity)"
| "double_times (Finite a) NegInfinity =
     (if a = 0 then NaN else if a < 0 then PosInfinity else NegInfinity)"
| "double_times PosInfinity (Finite b) =
     (if b = 0 then NaN else if b < 0 then NegInfinity else PosInfinity)"
| "double_times NegInfinity (Finite b) =
     (if b = 0 then NaN else if b < 0 then PosInfinity else NegInfinity)"
| "double_times PosInfinity PosInfinity = PosInfinity"
| "double_times NegInfinity NegInfinity = PosInfinity"
| "double_times PosInfinity NegInfinity = NegInfinity"
| "double_times NegInfinity PosInfinity = NegInfinity"

definition strip_zeros :: "string \<Rightarrow> string" where
  "strip_zeros s = rev (dropWhile (\<lambda>c. c = CHR ''0'') (rev s))"

text \<open>
  The text of a double of magnitude \<open>10^21\<close> or more (an integer \<open>x\<close> of \<open>n\<close> digits): the
  fewest digits \<open>k\<close> such that some \<open>k\<close>-digit \<open>c\<close> with \<open>c * 10^(n-k)\<close> rounds to \<open>x\<close>, the
  closest such \<open>c\<close> (the even one on a tie), written with an exponent.
\<close>

definition shortest_candidates :: "rat \<Rightarrow> nat \<Rightarrow> nat \<Rightarrow> nat list" where
  "shortest_candidates x n k =
     (let u = 10 ^ (n - k); c = nat \<lfloor>x / u\<rfloor>
      in filter (\<lambda>c. to_double (of_nat c * u) = Finite x) [c, c + 1])"

definition closest :: "rat \<Rightarrow> rat \<Rightarrow> nat list \<Rightarrow> nat option" where
  "closest x u cs =
     (case cs of
        [] \<Rightarrow> None
      | [c] \<Rightarrow> Some c
      | c # c' # _ \<Rightarrow>
          (let a = \<bar>of_nat c * u - x\<bar>; b = \<bar>of_nat c' * u - x\<bar>
           in if a < b then Some c else if b < a then Some c'
              else if even c then Some c else Some c'))"

definition exponent_string :: "rat \<Rightarrow> string" where
  "exponent_string x =
     (let n = length (string_of_nat (nat \<lfloor>x\<rfloor>));
          found = List.map_filter
                    (\<lambda>k. map_option (\<lambda>c. (k, c))
                           (closest x (10 ^ (n - k)) (shortest_candidates x n k)))
                    [1 ..< 18]
      in case found of
           [] \<Rightarrow> []
         | (k, c) # _ \<Rightarrow>
             (let ds = strip_zeros (string_of_nat c);
                  e = (if c = 10 ^ k then n else n - 1)
              in hd ds # (if tl ds = [] then [] else CHR ''.'' # tl ds)
                   @ ''e+'' @ string_of_nat e))"

text \<open>
  \<^verbatim>\<open>Number.prototype.toFixed(d)\<close>, for at most 100 fraction digits (the page asks for one; more
  raise a RangeError). Below \<open>10^21\<close> it prints the integer \<open>n\<close> with \<open>n / 10^d\<close> closest to
  the double's exact value (the larger one on a tie) with \<open>d\<close> fraction digits; from
  \<open>10^21\<close> on it prints the number's own text. A negative number prints its sign first.
\<close>

definition toFixed :: "double \<Rightarrow> nat \<Rightarrow> string" where
  "toFixed x d =
     (case x of
        NaN \<Rightarrow> ''NaN''
      | PosInfinity \<Rightarrow> ''Infinity''
      | NegInfinity \<Rightarrow> ''-Infinity''
      | Finite v \<Rightarrow>
          (let a = \<bar>v\<bar>;
               body = (if 10 ^ 21 \<le> a then exponent_string a
                       else let n = nat \<lfloor>a * 10 ^ d + 1 / 2\<rfloor>
                            in string_of_nat (n div 10 ^ d)
                               @ (if d = 0 then []
                                  else CHR ''.'' # pad_zeros d (string_of_nat (n mod 10 ^ d))))
           in (if v < 0 then ''-'' else []) @ body))"

section \<open>Dashboard page\<close>

record player =
  name :: string
  team :: string
  ppg :: number
  rpg :: number
  apg :: number
  efg :: number

record season_stat =
  season :: string
  avgPpg :: number
  avgRpg :: number
  avgApg :: number
  avgEfg :: number

record position_stat =
  position :: string
  count :: number
  percentage :: number

text \<open>The entries of \<^verbatim>\<open>teamPerformance\<close>; their \<^verbatim>\<open>team\<close> property is the field \<open>tp_team\<close>.\<close>

record team_stat =
  tp_team :: string
  wins :: number
  losses :: number
  winRate :: number

record dashboardData =
  topPlayers :: "player list"
  seasonStats :: "season_stat list"
  positionDistribution :: "position_stat list"
  teamPerformance :: "team_stat list"

text \<open>
  The object the query function of \<^verbatim>\<open>useQuery('dashboardData', ...)\<close> resolves to after its
  one-second timer.
\<close>

definition mock_dashboardData :: dashboardData where
  "mock_dashboardData =
     \<lparr>topPlayers =
        [\<lparr>name = ''Nikola Joki'' @ [CHR 0xC4, CHR 0x87], team = ''DEN'',
           ppg = 28.2, rpg = 12.8, apg = 8.9, efg = 0.632\<rparr>,
         \<lparr>name = ''Joel Embiid'', team = ''PHI'',
           ppg = 35.1, rpg = 11.1, apg = 5.9, efg = 0.598\<rparr>,
         \<lparr>name = ''Luka Don'' @ [CHR 0xC4, CHR 0x8D] @ ''i'' @ [CHR 0xC4, CHR 0x87], team = ''DAL'',
           ppg = 33.9, rpg = 8.2, apg = 9.8, efg = 0.587\<rparr>,
         \<lparr>name = ''Giannis Antetokounmpo'', team = ''MIL'',
           ppg = 30.8, rpg = 11.5, apg = 6.4, efg = 0.612\<rparr>,
         \<lparr>name = ''Kevin Durant'', team = ''PHX'',
           ppg = 29.9, rpg = 6.7, apg = 5.9, efg = 0.601\<rparr>],
      seasonStats =
        [\<lparr>season = ''2020'', avgPpg = 22.1, avgRpg = 8.9, avgApg = 5.2, avgEfg = 0.534\<rparr>,
         \<lparr>season = ''2021'', avgPpg = 22.8, avgRpg = 9.1, avgApg = 5.4, avgEfg = 0.541\<rparr>,
         \<lparr>season = ''2022'', avgPpg = 23.2, avgRpg = 9.3, avgApg = 5.6, avgEfg = 0.548\<rparr>,
         \<lparr>season = ''2023'', avgPpg = 23.8, avgRpg = 9.5, avgApg = 5.8, avgEfg = 0.552\<rparr>,
         \<lparr>season = ''2024'', avgPpg = 24.1, avgRpg = 9.7, avgApg = 6.0, avgEfg = 0.558\<rparr>],
      positionDistribution =
        [\<lparr>position = ''PG'', count = 120, percentage = 26.7\<rparr>,
         \<lparr>position = ''SG'', count = 115, percentage = 25.6\<rparr>,
         \<lparr>position = ''SF'', count = 95, percentage = 21.1\<rparr>,
         \<lparr>position = ''PF'', count = 80, percentage = 17.8\<rparr>,
         \<lparr>position = ''C'', count = 40, percentage = 8.9\<rparr>],
      teamPerformance =
        [\<lparr>tp_team = ''BOS'', wins = 35, losses = 12, winRate = 0.745\<rparr>,
         \<lparr>tp_team = ''MIL'', wins = 33, losses = 14, winRate = 0.702\<rparr>,
         \<lparr>tp_team = ''PHI'', wins = 32, losses = 15, winRate = 0.681\<rparr>,
         \<lparr>tp_team = ''DEN'', wins = 31, losses = 16, winRate = 0.660\<rparr>,
         \<lparr>tp_team = ''LAC'', wins = 30, losses = 17, winRate = 0.638\<rparr>]\<rparr>"

text \<open>
  The call \<^verbatim>\<open>useQuery('dashboardData', async () => {...})\<close> is made inside the component, where
  \<^verbatim>\<open>selectedMetric\<close> and \<^verbatim>\<open>selectedSeason\<close> are in scope: the key and the resolved value
  are given as functions of the two state variables, neither of which the source reads.
\<close>

definition dashboardQueryKey :: "string \<Rightarrow> string \<Rightarrow> string" where
  "dashboardQueryKey selectedMetric selectedSeason = ''dashboardData''"

definition dashboardQueryFn :: "string \<Rightarrow> string \<Rightarrow> dashboardData" where
  "dashboardQueryFn selectedMetric selectedSeason = mock_dashboardData"

text \<open>What \<^verbatim>\<open>useQuery\<close> hands to the component: \<^verbatim>\<open>isLoading\<close> and \<^verbatim>\<open>data\<close>.\<close>

record query_result =
  isLoading :: bool
  data :: "dashboardData option"

definition query_pending :: query_result where
  "query_pending = \<lparr>isLoading = True, data = None\<rparr>"

definition query_resolved :: "dashboardData \<Rightarrow> query_result" where
  "query_resolved d = \<lparr>isLoading = False, data = Some d\<rparr>"

record metric =
  key :: string
  label :: string
  color :: string

definition metrics :: "metric list" where
  "metrics =
     [\<lparr>key = ''ppg'', label = ''Points Per Game'', color = ''#3b82f6''\<rparr>,
      \<lparr>key = ''rpg'', label = ''Rebounds Per Game'', color = ''#10b981''\<rparr>,
      \<lparr>key = ''apg'', label = ''Assists Per Game'', color = ''#f59e0b''\<rparr>,
      \<lparr>key = ''efg'', label = ''Effective FG%'', color = ''#ef4444''\<rparr>]"

definition COLORS :: "string list" where
  "COLORS = [''#0088FE'', ''#00C49F'', ''#FFBB28'', ''#FF8042'', ''#8884D8'']"

text \<open>One \<^verbatim>\<open><tr>\<close> of the Top Players table: its React key and its seven cells.\<close>

record table_row =
  row_key :: string
  rank_cell :: nat
  player_cell :: string
  team_cell :: string
  ppg_cell :: number
  rpg_cell :: number
  apg_cell :: number
  efg_cell :: string

definition player_row :: "nat \<Rightarrow> player \<Rightarrow> table_row" where
  "player_row index p =
     \<lparr>row_key = name p,
      rank_cell = index + 1,
      player_cell = name p,
      team_cell = team p,
      ppg_cell = ppg p,
      rpg_cell = rpg p,
      apg_cell = apg p,
      efg_cell = toFixed (double_times (to_double (efg p)) (to_double 100)) 1 @ ''%''\<rparr>"

text \<open>\<^verbatim>\<open>xs.map((x, index) => f(x, index))\<close>.\<close>

definition map_index :: "(nat \<Rightarrow> 'a \<Rightarrow> 'b) \<Rightarrow> 'a list \<Rightarrow> 'b list" where
  "map_index f xs = map (\<lambda>(i, x). f i x) (enumerate 0 xs)"

text \<open>
  The data-bearing props of the rendered page: the two selectors' values, each chart's
  \<^verbatim>\<open>data\<close> and \<^verbatim>\<open>dataKey\<close>, the pie cells' fills, and the table body.
\<close>

record dashboard_view =
  metric_select :: string
  season_select :: string
  top_chart_title :: string
  top_chart_data :: "player list"
  top_chart_dataKey :: string
  top_chart_fill :: "string option"
  trends_data :: "season_stat list"
  pie_data :: "position_stat list"
  pie_cell_fills :: "string list"
  team_chart_data :: "team_stat list"
  table_rows :: "table_row list"

datatype view = LoadingView | DashboardView dashboard_view

text \<open>
  The component body. While \<^verbatim>\<open>isLoading\<close> it returns the spinner; otherwise it reads
  \<^verbatim>\<open>dashboardData.topPlayers\<close>, which throws a TypeError when \<^verbatim>\<open>data\<close> is undefined.
\<close>

definition Dashboard :: "string \<Rightarrow> string \<Rightarrow> query_result \<Rightarrow> js_error + view" where
  "Dashboard selectedMetric selectedSeason q =
     (if isLoading q then Inr LoadingView
      else case data q of
        None \<Rightarrow> Inl (TypeError ''dashboardData is undefined'')
      | Some dashboardData \<Rightarrow>
          Inr (DashboardView
            \<lparr>metric_select = selectedMetric,
             season_select = selectedSeason,
             top_chart_title = ''Top Players by '' @
               (case find (\<lambda>m. key m = selectedMetric) metrics of
                  None \<Rightarrow> [] | Some m \<Rightarrow> label m),
             top_chart_data = topPlayers dashboardData,
             top_chart_dataKey = selectedMetric,
             top_chart_fill =
               map_option color (find (\<lambda>m. key m = selectedMetric) metrics),
             trends_data = seasonStats dashboardData,
             pie_data = positionDistribution dashboardData,
             pie_cell_fills =
               map_index (\<lambda>index entry. COLORS ! (index mod length COLORS))
                 (positionDistribution dashboardData),
             team_chart_data = teamPerformance dashboardData,
             table_rows = map_index player_row (topPlayers dashboardData)\<rparr>))"

text \<open>The page once its own query has resolved.\<close>

definition Dashboard_loaded :: "string \<Rightarrow> string \<Rightarrow> js_error + view" where
  "Dashboard_loaded selectedMetric selectedSeason =
     Dashboard selectedMetric selectedSeason
       (query_resolved (dashboardQueryFn selectedMetric selectedSeason))"

text \<open>The four datasets a rendered page shows, when it shows any.\<close>

record datasets =
  shown_topPlayers :: "player list"
  shown_seasonStats :: "season_stat list"
  shown_positionDistribution :: "position_stat list"
  shown_teamPerformance :: "team_stat list"

definition shown_datasets :: "js_error + view \<Rightarrow> datasets option" where
  "shown_datasets r =
     (case r of
        Inr (DashboardView v) \<Rightarrow>
          Some \<lparr>shown_topPlayers = top_chart_data v,
                shown_seasonStats = trends_data v,
                shown_positionDistribution = pie_data v,
                shown_teamPerformance = team_chart_data v\<rparr>
      | _ \<Rightarrow> None)"

definition shown_rows :: "js_error + view \<Rightarrow> table_row list" where
  "shown_rows r = (case r of Inr (DashboardView v) \<Rightarrow> table_rows v | _ \<Rightarrow> [])"

section \<open>Data collection page\<close>

datatype toast_kind = ToastLoading | ToastSuccess | ToastError

record toast =
  kind :: toast_kind
  message :: string

text \<open>
  The state the handler reads and writes: the two \<^verbatim>\<open>useState\<close> cells, the toasts on screen
  (by toast id), and the number of invocations of the handler that are suspended at their
  \<^verbatim>\<open>await\<close>.
\<close>

record dc_state =
  isCollecting :: bool
  selectedSeason :: string
  toasts :: "(string \<times> toast) list"
  suspended :: nat

definition initial_state :: dc_state where
  "initial_state = \<lparr>isCollecting = False, selectedSeason = ''2024'', toasts = [], suspended = 0\<rparr>"

text \<open>A statement: it runs on the state and completes normally (\<open>Inr\<close>) or throws (\<open>Inl\<close>).\<close>

type_synonym action = "dc_state \<Rightarrow> (js_error + js_value) \<times> dc_state"

definition js_seq :: "action \<Rightarrow> action \<Rightarrow> action" where
  "js_seq a b s = (case a s of (Inl e, s1) \<Rightarrow> (Inl e, s1) | (Inr v, s1) \<Rightarrow> b s1)"

definition js_throw :: "js_error \<Rightarrow> action" where
  "js_throw e s = (Inl e, s)"

definition js_return :: "js_value \<Rightarrow> action" where
  "js_return v s = (Inr v, s)"

text \<open>
  \<^verbatim>\<open>try { body } catch (error) { handler } finally { fin }\<close>: the handler runs when the body
  throws, \<open>fin\<close> runs in every case, and a throwing \<open>fin\<close> replaces the completion.
\<close>

definition try_catch_finally :: "action \<Rightarrow> (js_error \<Rightarrow> action) \<Rightarrow> action \<Rightarrow> action" where
  "try_catch_finally body handler fin s =
     (let (r, s1) = (case body s of
                       (Inl e, s0) \<Rightarrow> handler e s0
                     | (Inr v, s0) \<Rightarrow> (Inr v, s0))
      in case fin s1 of
           (Inl e, s2) \<Rightarrow> (Inl e, s2)
         | (Inr v, s2) \<Rightarrow> (r, s2))"

definition setIsCollecting :: "bool \<Rightarrow> action" where
  "setIsCollecting b s = (Inr Undefined, s\<lparr>isCollecting := b\<rparr>)"

text \<open>
  A toast call with an \<^verbatim>\<open>id\<close> option replaces the toast of that id, or adds it, and returns
  the id. The calls into the toast library and the state setter complete normally.
\<close>

fun upsert :: "string \<Rightarrow> toast \<Rightarrow> (string \<times> toast) list \<Rightarrow> (string \<times> toast) list" where
  "upsert i t [] = [(i, t)]"
| "upsert i t ((j, u) # ts) = (if j = i then (i, t) # ts else (j, u) # upsert i t ts)"

definition show_toast :: "toast_kind \<Rightarrow> string \<Rightarrow> string \<Rightarrow> action" where
  "show_toast k msg i s =
     (Inr (JsString i), s\<lparr>toasts := upsert i \<lparr>kind = k, message = msg\<rparr> (toasts s)\<rparr>)"

definition toast_loading :: "string \<Rightarrow> string \<Rightarrow> action" where
  "toast_loading = show_toast ToastLoading"

definition toast_success :: "string \<Rightarrow> string \<Rightarrow> action" where
  "toast_success = show_toast ToastSuccess"

definition toast_error :: "string \<Rightarrow> string \<Rightarrow> action" where
  "toast_error = show_toast ToastError"

text \<open>
  A promise settles once. The executor of \<^verbatim>\<open>new Promise(resolve => setTimeout(resolve, 3000))\<close>
  registers one timer whose callback is \<^verbatim>\<open>resolve\<close>; an executor is given by the timers it
  registers, the earliest of which settles the promise, and a promise with none stays pending.
\<close>

datatype settlement = Fulfil js_value | Reject js_error

datatype timer_callback = CallResolve | CallReject js_error

fun earliest :: "(nat \<times> timer_callback) list \<Rightarrow> (nat \<times> timer_callback) option" where
  "earliest [] = None"
| "earliest ((d, c) # ts) =
     (case earliest ts of
        None \<Rightarrow> Some (d, c)
      | Some (d', c') \<Rightarrow> if d' < d then Some (d', c') else Some (d, c))"

definition settle :: "(nat \<times> timer_callback) list \<Rightarrow> settlement option" where
  "settle timers =
     (case earliest timers of
        None \<Rightarrow> None
      | Some (d, CallResolve) \<Rightarrow> Some (Fulfil Undefined)
      | Some (d, CallReject e) \<Rightarrow> Some (Reject e))"

definition collection_timers :: "(nat \<times> timer_callback) list" where
  "collection_timers = [(3000, CallResolve)]"

definition await_settled :: "settlement \<Rightarrow> action" where
  "await_settled st = (case st of Fulfil v \<Rightarrow> js_return v | Reject e \<Rightarrow> js_throw e)"

text \<open>
  \<^verbatim>\<open>handleStartCollection\<close> up to its \<^verbatim>\<open>await\<close>: the flag is set, the loading toast is shown,
  the promise is created and the invocation suspends.
\<close>

definition handler_before_await :: action where
  "handler_before_await =
     js_seq (setIsCollecting True)
       (js_seq (toast_loading ''Starting data collection...'' ''collection'')
          (\<lambda>s. (Inr Undefined, s\<lparr>suspended := suspended s + 1\<rparr>)))"

text \<open>
  The rest of the handler, resumed with the settlement of the awaited promise. Its result is
  the completion of the \<^verbatim>\<open>async\<close> function: \<open>Inr Undefined\<close>, as the body has no
  \<^verbatim>\<open>return\<close>, or \<open>Inl\<close> when an exception leaves the body (the caller's promise rejects).
\<close>

definition handler_after_await :: "settlement \<Rightarrow> action" where
  "handler_after_await st =
     js_seq (\<lambda>s. (Inr Undefined, s\<lparr>suspended := suspended s - 1\<rparr>))
       (js_seq
          (try_catch_finally
             (js_seq (await_settled st)
                (toast_success ''Data collection completed successfully!'' ''collection''))
             (\<lambda>error. toast_error ''Data collection failed. Please try again.'' ''collection'')
             (setIsCollecting False))
          (js_return Undefined))"

definition handleStartCollection :: "settlement \<Rightarrow> action" where
  "handleStartCollection st = js_seq handler_before_await (handler_after_await st)"

text \<open>The handler with the promise the source awaits; \<open>None\<close> when that promise never settles.\<close>

definition startCollection :: "dc_state \<Rightarrow> ((js_error + js_value) \<times> dc_state) option" where
  "startCollection s = map_option (\<lambda>st. handleStartCollection st s) (settle collection_timers)"

text \<open>A run identifier is a defined value: a string or a number.\<close>

definition returns_runId :: "js_error + js_value \<Rightarrow> bool" where
  "returns_runId r =
     (case r of Inr (JsString i) \<Rightarrow> True | Inr (JsNumber n) \<Rightarrow> True | _ \<Rightarrow> False)"

definition toast_shown :: "dc_state \<Rightarrow> string \<Rightarrow> toast option" where
  "toast_shown s i = map_of (toasts s) i"

text \<open>
  The page inside the application. The router mounts the page when its route is entered and
  unmounts it when another route is; \<^verbatim>\<open>isCollecting\<close> and \<^verbatim>\<open>selectedSeason\<close> are state of one
  mount and start afresh at the next, the toasts belong to the application, and nothing cancels
  the timer of a suspended invocation. \<open>page\<close> holds the mounted page's two cells, the toasts
  and the count of suspended invocations; \<open>owners\<close> lists the suspended invocations, oldest
  first, each with whether the mount that started it is the current one.
\<close>

record app_state =
  page :: dc_state
  mounted :: bool
  owners :: "bool list"

definition initial_app :: app_state where
  "initial_app = \<lparr>page = initial_state, mounted = True, owners = []\<rparr>"

datatype event = ClickStart | TimerFires | SelectSeason string | Unmount | Mount

definition button_disabled :: "dc_state \<Rightarrow> bool" where
  "button_disabled s = isCollecting s"

text \<open>
  One event of the application. The button carries \<^verbatim>\<open>disabled={isCollecting}\<close>, and a disabled
  or unmounted button dispatches no click. The timers all wait 3000 ms, so they fire in the
  order in which they were set: the oldest suspended invocation resumes, and its
  \<^verbatim>\<open>setIsCollecting(false)\<close> is ignored when its mount is gone. Unmounting leaves the
  suspended invocations in flight; mounting starts with \<^verbatim>\<open>useState(false)\<close> and
  \<^verbatim>\<open>useState('2024')\<close>.
\<close>

fun step :: "app_state \<Rightarrow> event \<Rightarrow> app_state" where
  "step a ClickStart =
     (if mounted a \<and> \<not> button_disabled (page a)
      then a\<lparr>page := snd (handler_before_await (page a)), owners := owners a @ [True]\<rparr>
      else a)"
| "step a TimerFires =
     (case owners a of
        [] \<Rightarrow> a
      | own # rest \<Rightarrow>
          (case settle collection_timers of
             None \<Rightarrow> a
           | Some st \<Rightarrow>
               (let p = snd (handler_after_await st (page a))
                in a\<lparr>page := (if own then p else p\<lparr>isCollecting := isCollecting (page a)\<rparr>),
                     owners := rest\<rparr>)))"
| "step a (SelectSeason v) =
     (if mounted a then a\<lparr>page := (page a)\<lparr>selectedSeason := v\<rparr>\<rparr> else a)"
| "step a Unmount =
     (if mounted a then a\<lparr>mounted := False, owners := map (\<lambda>own. False) (owners a)\<rparr> else a)"
| "step a Mount =
     (if mounted a then a
      else a\<lparr>mounted := True,
             page := (page a)\<lparr>isCollecting := False, selectedSeason := ''2024''\<rparr>\<rparr>)"

definition run_events :: "event list \<Rightarrow> app_state" where
  "run_events evs = foldl step initial_app evs"

definition error_toast_shown :: "dc_state \<Rightarrow> bool" where
  "error_toast_shown s = (ToastError \<in> kind ` snd ` set (toasts s))"

text \<open>
  What every reachable state of the application satisfies: the count of suspended invocations
  is the length of \<open>owners\<close>, at most one of them belongs to the current mount, the flag of a
  mounted page is set exactly when one does, and no error toast is shown.
\<close>

definition app_inv :: "app_state \<Rightarrow> bool" where
  "app_inv a =
     (suspended (page a) = length (owners a)
      \<and> length (filter id (owners a)) \<le> 1
      \<and> (if mounted a then isCollecting (page a) = (True \<in> set (owners a))
          else True \<notin> set (owners a))
      \<and> \<not> error_toast_shown (page a))"

text \<open>The page has stayed mounted: every suspended invocation belongs to the current mount.\<close>

definition one_mount :: "app_state \<Rightarrow> bool" where
  "one_mount a = (mounted a \<and> False \<notin> set (owners a))"

section \<open>Collection pipeline: validation\<close>

text \<open>
  The repository's sources hold the validation table \<^verbatim>\<open>VALIDATION_RULES\<close> and the page that
  triggers a collection, but not the validator, the reconciler, the run coordinator or the
  store. The table below is the source's; every other type and function of this and the next
  two sections is modelled from the specification and says so.
\<close>

text \<open>
  Modelled from the spec: a raw field value, the tagged union \<^verbatim>\<open>string|number|null|unknown\<close>,
  which no source file declares.
\<close>

datatype raw_value = RawString string | RawNumber number | RawNull | RawUnknown

text \<open>
  Modelled from the spec: the RawRecord, which no source file declares: the source identifier,
  the entity key as the source supplies it (name, team, season), the field mapping and the
  fetch time. The mapping keeps the order in which the adapter produced it, and a lookup reads
  the first entry of a name.
\<close>

record RawRecord =
  source_id :: string
  raw_name :: string
  raw_team :: string
  raw_season :: string
  raw_fields :: "(string \<times> raw_value) list"
  fetched_at :: nat

text \<open>The three tables of \<^verbatim>\<open>VALIDATION_RULES\<close>, as the source writes them.\<close>

record validation_rules =
  required_fields :: "string list"
  numeric_ranges :: "(string \<times> number \<times> number) list"
  data_types :: "(string \<times> string) list"

definition VALIDATION_RULES :: validation_rules where
  "VALIDATION_RULES =
     \<lparr>required_fields = [''player_name'', ''team'', ''ppg'', ''rpg'', ''apg''],
      numeric_ranges =
        [(''ppg'', 0, 50), (''rpg'', 0, 20), (''apg'', 0, 15), (''efg'', 0, 1), (''ts'', 0, 1)],
      data_types =
        [(''player_name'', ''string''), (''ppg'', ''float''), (''games_played'', ''integer'')]\<rparr>"

text \<open>
  Modelled from the spec: the status of a ValidationOutcome and a field-level violation
  (field, rule, observed value); neither is declared in the sources.
\<close>

datatype validation_status = Accepted | Repaired | Rejected

record violation =
  violated_field :: string
  violated_rule :: string
  observed :: "raw_value option"

text \<open>
  Modelled from the spec: the ValidationOutcome, which wraps the RawRecord with a status,
  the field-level violations and, if repaired, the substituted values.
\<close>

record ValidationOutcome =
  record_of :: RawRecord
  status :: validation_status
  violations :: "violation list"
  substituted :: "(string \<times> raw_value) list"

text \<open>
  Modelled from the spec: the value a RawRecord's field mapping gives a field name; the
  mapping is not in the sources.
\<close>

definition field_of :: "RawRecord \<Rightarrow> string \<Rightarrow> raw_value option" where
  "field_of r f = map_of (raw_fields r) f"

text \<open>
  Modelled from the spec: when a field is missing. The validator is not in the sources; the
  spec treats a null field as an absent one (clamping to null makes the field absent).
\<close>

definition missing :: "RawRecord \<Rightarrow> string \<Rightarrow> bool" where
  "missing r f =
     (case field_of r f of None \<Rightarrow> True | Some RawNull \<Rightarrow> True | Some v \<Rightarrow> False)"

text \<open>
  Modelled from the spec: a numeric field outside its documented range. The validator is not
  in the sources; the range table is, and its pair \<open>(lo, hi)\<close> is the closed interval the
  spec writes \<open>[lo, hi]\<close>.
\<close>

definition out_of_range :: "validation_rules \<Rightarrow> RawRecord \<Rightarrow> string \<Rightarrow> bool" where
  "out_of_range rules r f =
     (case map_of (numeric_ranges rules) f of
        None \<Rightarrow> False
      | Some (lo, hi) \<Rightarrow>
          (case field_of r f of Some (RawNumber x) \<Rightarrow> x < lo \<or> hi < x | _ \<Rightarrow> False))"

text \<open>
  Modelled from the spec: the violation logged for a field and a rule, with the observed
  value; the validator is not in the sources.
\<close>

definition mk_violation :: "RawRecord \<Rightarrow> string \<Rightarrow> string \<Rightarrow> violation" where
  "mk_violation r rule f = \<lparr>violated_field = f, violated_rule = rule, observed = field_of r f\<rparr>"

text \<open>
  Modelled from the spec: \<^verbatim>\<open>validate(RawRecord) -> ValidationOutcome\<close>, whose code is not in the
  sources. The policy of section 4.3, in its order: a missing required field rejects; otherwise
  a record with no numeric field out of range is accepted; otherwise the out-of-range fields
  are replaced by null and the record is repaired, unless more than the configured fraction
  of the required fields are invalid, which rejects. The validator checks field presence and
  numeric ranges; every outcome lists the violated rules.
\<close>

definition validate :: "validation_rules \<Rightarrow> number \<Rightarrow> RawRecord \<Rightarrow> ValidationOutcome" where
  "validate rules max_invalid_fraction r =
     (let absent = filter (missing r) (required_fields rules);
          bad = filter (out_of_range rules r) (remdups (map fst (numeric_ranges rules)));
          bad_required = filter (\<lambda>f. f \<in> set bad) (required_fields rules);
          found = map (mk_violation r ''required'') absent @ map (mk_violation r ''range'') bad
      in if absent \<noteq> [] then
           \<lparr>record_of = r, status = Rejected, violations = found, substituted = []\<rparr>
         else if bad = [] then
           \<lparr>record_of = r, status = Accepted, violations = found, substituted = []\<rparr>
         else if max_invalid_fraction * of_nat (length (required_fields rules))
                   < of_nat (length bad_required) then
           \<lparr>record_of = r, status = Rejected, violations = found, substituted = []\<rparr>
         else
           \<lparr>record_of = r, status = Repaired, violations = found,
            substituted = map (\<lambda>f. (f, RawNull)) bad\<rparr>)"

text \<open>
  Modelled from the spec: what a validated record reports for a field to the Reconciler, its
  own value unless the field was substituted by null or is null.
\<close>

definition usable_field :: "ValidationOutcome \<Rightarrow> string \<Rightarrow> raw_value option" where
  "usable_field out f =
     (if f \<in> fst ` set (substituted out) then None
      else case field_of (record_of out) f of
             None \<Rightarrow> None
           | Some RawNull \<Rightarrow> None
           | Some v \<Rightarrow> Some v)"

section \<open>Collection pipeline: reconciliation\<close>

text \<open>
  Modelled from the spec: the EntityKey (normalized player name, resolved team code, season),
  which no source file declares.
\<close>

type_synonym EntityKey = "string \<times> string \<times> string"

text \<open>
  Modelled from the spec: a source of the configuration surface
  \<^verbatim>\<open>sources: list of {id, precedence, maxRequestsPerMinute, minDelay}\<close>. A smaller precedence
  number outranks a larger one (the precedence-1 source wins over the precedence-2 source).
\<close>

record source_config =
  src_id :: string
  precedence :: nat
  maxRequestsPerMinute :: nat
  minDelay :: number

text \<open>
  Modelled from the spec: the precedence of a record's source, read from the configured list;
  the Reconciler is not in the sources. A source that is not configured ranks after all
  configured ones.
\<close>

definition rank_of :: "source_config list \<Rightarrow> string \<Rightarrow> nat" where
  "rank_of cfg sid =
     (case find (\<lambda>c. src_id c = sid) cfg of
        Some c \<Rightarrow> precedence c
      | None \<Rightarrow> Suc (fold max (map precedence cfg) 0))"

text \<open>
  Modelled from the spec: a field of a CanonicalRecord, tagged with its contributing source
  and record, a confidence score and the \<^verbatim>\<open>conflicted\<close> flag.
\<close>

record canonical_field =
  field_name :: string
  chosen :: raw_value
  contributing_source :: string
  contributing_record :: RawRecord
  confidence :: number
  conflicted :: bool

text \<open>
  Modelled from the spec: the CanonicalRecord, which no source file declares: one per
  EntityKey, with the validated records it was merged from and its tagged fields.
\<close>

record CanonicalRecord =
  entity :: EntityKey
  merged_from :: "ValidationOutcome list"
  canonical_fields :: "canonical_field list"

text \<open>
  Modelled from the spec: the number a raw value holds, if it is one; the tagged union is not
  declared in the sources.
\<close>

definition number_of :: "raw_value \<Rightarrow> number option" where
  "number_of v = (case v of RawNumber x \<Rightarrow> Some x | _ \<Rightarrow> None)"

text \<open>
  Modelled from the spec: the median of all candidates, which the Reconciler (not in the
  sources) compares values with: the middle one of the sorted numbers, or the mean of the two
  middle ones.
\<close>

definition median :: "number list \<Rightarrow> number option" where
  "median xs =
     (let ys = sort xs; n = length ys
      in if n = 0 then None
         else if odd n then Some (ys ! (n div 2))
         else Some ((ys ! (n div 2 - 1) + ys ! (n div 2)) / 2))"

text \<open>
  Modelled from the spec: the Reconciler's pick among candidates, the Reconciler not being in
  the sources: the first element of the list that no later element beats.
\<close>

fun first_best :: "('a \<Rightarrow> 'a \<Rightarrow> bool) \<Rightarrow> 'a list \<Rightarrow> 'a option" where
  "first_best better [] = None"
| "first_best better (x # xs) =
     (case first_best better xs of
        None \<Rightarrow> Some x
      | Some y \<Rightarrow> if better y x then Some y else Some x)"

text \<open>
  Modelled from the spec: the candidate values of a field, collected from all contributing
  records that report it; the Reconciler is not in the sources.
\<close>

definition candidates :: "string \<Rightarrow> ValidationOutcome list \<Rightarrow> (ValidationOutcome \<times> raw_value) list" where
  "candidates f outs =
     concat (map (\<lambda>out. case usable_field out f of None \<Rightarrow> [] | Some v \<Rightarrow> [(out, v)]) outs)"

text \<open>
  Modelled from the spec: how far a candidate is from the median of all candidates; a value
  that is no number is at distance 0. The Reconciler is not in the sources.
\<close>

definition distance_to :: "number option \<Rightarrow> raw_value \<Rightarrow> number" where
  "distance_to med v =
     (case (med, number_of v) of (Some m, Some x) \<Rightarrow> \<bar>x - m\<bar> | _ \<Rightarrow> 0)"

text \<open>
  Modelled from the spec: two values disagree beyond the configured tolerance; values that are
  not both numbers disagree when they differ. The Reconciler is not in the sources.
\<close>

definition differ_beyond :: "number \<Rightarrow> raw_value \<Rightarrow> raw_value \<Rightarrow> bool" where
  "differ_beyond tol v w =
     (case (number_of v, number_of w) of
        (Some x, Some y) \<Rightarrow> tol < \<bar>x - y\<bar>
      | _ \<Rightarrow> v \<noteq> w)"

text \<open>
  Modelled from the spec: the Reconciler's choice for one field, whose code is not in the
  sources. The source of the best precedence wins and, among equally ranked sources, the value
  closest to the median of all candidates. The spec names no rule for an exact tie: the
  earlier record of the list is kept. The field is flagged \<^verbatim>\<open>conflicted\<close> when two candidates
  disagree beyond the field's tolerance, and still takes the highest-precedence value. The
  confidence score is the configured function of the contributing sources' ranks.
\<close>

definition select_field ::
  "source_config list \<Rightarrow> (string \<Rightarrow> number) \<Rightarrow> (nat list \<Rightarrow> number) \<Rightarrow> string \<Rightarrow>
     ValidationOutcome list \<Rightarrow> canonical_field option" where
  "select_field cfg tolerance confidence_of f outs =
     (let cands = candidates f outs;
          rank = (\<lambda>c. rank_of cfg (source_id (record_of (fst c))));
          med = median (concat (map (\<lambda>c. case number_of (snd c) of None \<Rightarrow> [] | Some x \<Rightarrow> [x]) cands));
          better = (\<lambda>a b. rank a < rank b \<or>
                      (rank a = rank b \<and> distance_to med (snd a) < distance_to med (snd b)))
      in case first_best better cands of
           None \<Rightarrow> None
         | Some (out, v) \<Rightarrow>
             Some \<lparr>field_name = f,
                   chosen = v,
                   contributing_source = source_id (record_of out),
                   contributing_record = record_of out,
                   confidence = confidence_of (map rank cands),
                   conflicted =
                     list_ex (\<lambda>a. list_ex (\<lambda>b.
                        differ_beyond (tolerance f) (snd a) (snd b)) cands) cands\<rparr>)"

text \<open>
  Modelled from the spec: \<^verbatim>\<open>merge(entityKey, records) -> CanonicalRecord\<close>, whose code is not in
  the sources: one canonical field for every field name some contributing record reports.
\<close>

definition merge ::
  "source_config list \<Rightarrow> (string \<Rightarrow> number) \<Rightarrow> (nat list \<Rightarrow> number) \<Rightarrow> EntityKey \<Rightarrow>
     ValidationOutcome list \<Rightarrow> CanonicalRecord" where
  "merge cfg tolerance confidence_of k outs =
     \<lparr>entity = k,
      merged_from = outs,
      canonical_fields =
        concat (map (\<lambda>f. case select_field cfg tolerance confidence_of f outs of
                            None \<Rightarrow> [] | Some cf \<Rightarrow> [cf])
                  (remdups (concat (map (\<lambda>out. map fst (raw_fields (record_of out))) outs))))\<rparr>"

text \<open>
  Modelled from the spec: the Reconciler over the validated records of one run. Entity-key
  resolution (name normalization, team and season matching, the majority rule for ambiguous
  matches) is the parameter \<open>resolve\<close>, which sees all the records of the run; the records of
  one key are merged into one CanonicalRecord, in the order in which the keys first occur.
\<close>

definition reconcile ::
  "source_config list \<Rightarrow> (string \<Rightarrow> number) \<Rightarrow> (nat list \<Rightarrow> number) \<Rightarrow>
     (RawRecord list \<Rightarrow> RawRecord \<Rightarrow> EntityKey) \<Rightarrow> ValidationOutcome list \<Rightarrow> CanonicalRecord list" where
  "reconcile cfg tolerance confidence_of resolve outs =
     (let key_of = (\<lambda>out. resolve (map record_of outs) (record_of out))
      in map (\<lambda>k. merge cfg tolerance confidence_of k (filter (\<lambda>out. key_of out = k) outs))
           (remdups (map key_of outs)))"

section \<open>Collection pipeline: run coordination and the store\<close>

text \<open>
  Modelled from the spec: the per-source status \<^verbatim>\<open>pending|running|succeeded|failed|partial\<close>,
  which the sources do not declare.
\<close>

datatype source_status = SrcPending | SrcRunning | SrcSucceeded | SrcFailed | SrcPartial

text \<open>
  Modelled from the spec: what one Source Adapter hands to the coordinator when it reaches a
  terminal per-source status: \<open>SrcFailed\<close> once its retries are exhausted, \<open>SrcPartial\<close> when
  scope units were skipped, and the raw records it fetched.
\<close>

record source_result =
  result_source :: string
  result_status :: source_status
  result_records :: "RawRecord list"

text \<open>
  Modelled from the spec: a source that completed, fully or with skipped scope units; the
  coordinator is not in the sources.
\<close>

definition finished :: "source_result \<Rightarrow> bool" where
  "finished sr = (result_status sr = SrcSucceeded \<or> result_status sr = SrcPartial)"

text \<open>
  Modelled from the spec: the records that reach the Reconciler. The run reconciles whatever
  sources completed, and rejected records never reach the Reconciler.
\<close>

definition reconciler_input ::
  "validation_rules \<Rightarrow> number \<Rightarrow> source_result list \<Rightarrow> ValidationOutcome list" where
  "reconciler_input rules max_invalid_fraction results =
     filter (\<lambda>out. status out \<noteq> Rejected)
       (map (validate rules max_invalid_fraction)
          (concat (map result_records (filter finished results))))"

text \<open>
  Modelled from the spec: the Canonical Store, which is not in the sources: its version and
  the committed runs, append-only.
\<close>

record store =
  version :: nat
  committed :: "(string \<times> CanonicalRecord list) list"

text \<open>
  Modelled from the spec: \<^verbatim>\<open>commit(runId, canonicalRecords) -> success|failure\<close>, whose code is
  not in the sources: all records of the run are written together as a new version, or the
  commit fails because it targets a stale base version.
\<close>

definition commit :: "store \<Rightarrow> nat \<Rightarrow> string \<Rightarrow> CanonicalRecord list \<Rightarrow> store option" where
  "commit st base runId recs =
     (if base = version st
      then Some \<lparr>version = version st + 1, committed = committed st @ [(runId, recs)]\<rparr>
      else None)"

text \<open>
  Modelled from the spec: the CollectionRun, which the sources do not declare: its state
  \<^verbatim>\<open>pending|running|succeeded|partial|failed\<close>, its outcome \<^verbatim>\<open>committed|aborted\<close>, the
  per-source status and the aggregate error list, whose entries follow the error taxonomy. The
  scope and the time stamps of a run do not enter its last step and are left out.
\<close>

datatype run_status = RunPending | RunRunning | RunSucceeded | RunPartial | RunFailed

datatype run_outcome = RunCommitted | RunAborted

datatype run_error =
    SourceFailure string
  | ValidationRejection RawRecord
  | ReconciliationConflict EntityKey string
  | CommitConflict

record CollectionRun =
  run_id :: string
  per_source :: "(string \<times> source_status) list"
  error_list :: "run_error list"
  run_state :: run_status
  outcome :: run_outcome

text \<open>
  Modelled from the spec: the pipeline's configuration, passed as one value.
\<close>

record pipeline_config =
  cfg_sources :: "source_config list"
  cfg_rules :: validation_rules
  cfg_max_invalid_fraction :: number
  cfg_tolerance :: "string \<Rightarrow> number"
  cfg_confidence :: "nat list \<Rightarrow> number"
  cfg_resolve :: "RawRecord list \<Rightarrow> RawRecord \<Rightarrow> EntityKey"

text \<open>
  Modelled from the spec: the CanonicalRecords of a run, the Reconciler applied to the records
  that reach it; neither is in the sources.
\<close>

definition run_canonical :: "pipeline_config \<Rightarrow> source_result list \<Rightarrow> CanonicalRecord list" where
  "run_canonical cfg results =
     reconcile (cfg_sources cfg) (cfg_tolerance cfg) (cfg_confidence cfg) (cfg_resolve cfg)
       (reconciler_input (cfg_rules cfg) (cfg_max_invalid_fraction cfg) results)"

text \<open>
  Modelled from the spec: the errors a run aggregates instead of raising them, the coordinator
  not being in the sources: the sources that did not finish, the records validation rejected,
  and the fields reconciliation flagged.
\<close>

definition run_errors :: "pipeline_config \<Rightarrow> source_result list \<Rightarrow> run_error list" where
  "run_errors cfg results =
     map (\<lambda>sr. SourceFailure (result_source sr)) (filter (\<lambda>sr. \<not> finished sr) results)
     @ map ValidationRejection
         (filter (\<lambda>r. status (validate (cfg_rules cfg) (cfg_max_invalid_fraction cfg) r) = Rejected)
            (concat (map result_records (filter finished results))))
     @ concat (map (\<lambda>c. map (\<lambda>cf. ReconciliationConflict (entity c) (field_name cf))
                           (filter conflicted (canonical_fields c)))
                 (run_canonical cfg results))"

text \<open>
  Modelled from the spec: the Run Coordinator's last step, once every source has a terminal
  status; its code is not in the sources. A run with no accepted record is \<open>failed\<close> and
  commits nothing. Otherwise it is \<open>partial\<close> when a source did not finish (it exhausted its
  retries, or was still pending at the deadline and is marked failed) and \<open>succeeded\<close> when all
  did, and the canonical records are committed at once against the base version the run
  started from. On a commit conflict the commit is retried once against
  the latest version; \<open>interleaved\<close> is what other runs write between the re-read and the
  retry, and a second conflict fails the run.
\<close>

definition finish_run ::
  "pipeline_config \<Rightarrow> string \<Rightarrow> nat \<Rightarrow> (store \<Rightarrow> store) \<Rightarrow> source_result list \<Rightarrow> store \<Rightarrow>
     CollectionRun \<times> store" where
  "finish_run cfg runId base interleaved results st =
     (let statuses = map (\<lambda>sr. (result_source sr, result_status sr)) results;
          input = reconciler_input (cfg_rules cfg) (cfg_max_invalid_fraction cfg) results;
          failures = run_errors cfg results
      in if input = [] then
           (\<lparr>run_id = runId, per_source = statuses, error_list = failures,
             run_state = RunFailed, outcome = RunAborted\<rparr>, st)
         else
           let reached = (if list_ex (\<lambda>sr. \<not> finished sr) results
                          then RunPartial else RunSucceeded);
               recs = run_canonical cfg results
           in case commit st base runId recs of
                Some st1 \<Rightarrow>
                  (\<lparr>run_id = runId, per_source = statuses, error_list = failures,
                    run_state = reached, outcome = RunCommitted\<rparr>, st1)
              | None \<Rightarrow>
                  (let latest = version st; st1 = interleaved st
                   in case commit st1 latest runId recs of
                        Some st2 \<Rightarrow>
                          (\<lparr>run_id = runId, per_source = statuses, error_list = failures,
                            run_state = reached, outcome = RunCommitted\<rparr>, st2)
                      | None \<Rightarrow>
                          (\<lparr>run_id = runId, per_source = statuses,
                            error_list = failures @ [CommitConflict],
                            run_state = RunFailed, outcome = RunAborted\<rparr>, st1)))"

section \<open>Sample inputs\<close>

text \<open>A configuration and records on which the theorems below are instantiated.\<close>

definition sample_config :: pipeline_config where
  "sample_config =
     \<lparr>cfg_sources =
        [\<lparr>src_id = ''nba_com'', precedence = 1, maxRequestsPerMinute = 30, minDelay = 2\<rparr>,
         \<lparr>src_id = ''basketball_reference'', precedence = 2, maxRequestsPerMinute = 30,
           minDelay = 2\<rparr>,
         \<lparr>src_id = ''kaggle'', precedence = 3, maxRequestsPerMinute = 30, minDelay = 2\<rparr>],
      cfg_rules = VALIDATION_RULES,
      cfg_max_invalid_fraction = 1 / 2,
      cfg_tolerance = (\<lambda>f. 1 / 2),
      cfg_confidence = (\<lambda>ranks. 1 / of_nat (Suc (length ranks))),
      cfg_resolve = (\<lambda>all r. (raw_name r, raw_team r, raw_season r))\<rparr>"

definition jokic_bad_ppg :: RawRecord where
  "jokic_bad_ppg =
     \<lparr>source_id = ''basketball_reference'', raw_name = ''nikola jokic'', raw_team = ''DEN'',
      raw_season = ''2024'',
      raw_fields = [(''player_name'', RawString ''Nikola Jokic''), (''team'', RawString ''DEN''),
                    (''ppg'', RawNumber 72.5), (''rpg'', RawNumber 12.8), (''apg'', RawNumber 8.9)],
      fetched_at = 0\<rparr>"

definition jokic_no_team :: RawRecord where
  "jokic_no_team =
     \<lparr>source_id = ''kaggle'', raw_name = ''nikola jokic'', raw_team = ''DEN'',
      raw_season = ''2024'',
      raw_fields = [(''player_name'', RawString ''Nikola Jokic''),
                    (''ppg'', RawNumber 72.5), (''rpg'', RawNumber 12.8), (''apg'', RawNumber 8.9)],
      fetched_at = 0\<rparr>"

definition sample_results :: "source_result list" where
  "sample_results =
     [\<lparr>result_source = ''nba_com'', result_status = SrcFailed, result_records = []\<rparr>,
      \<lparr>result_source = ''basketball_reference'', result_status = SrcSucceeded,
        result_records = [jokic_bad_ppg]\<rparr>,
      \<lparr>result_source = ''kaggle'', result_status = SrcSucceeded,
        result_records = [jokic_no_team]\<rparr>]"

definition failed_results :: "source_result list" where
  "failed_results =
     [\<lparr>result_source = ''nba_com'', result_status = SrcFailed, result_records = []\<rparr>,
      \<lparr>result_source = ''basketball_reference'', result_status = SrcFailed,
        result_records = [jokic_bad_ppg]\<rparr>,
      \<lparr>result_source = ''kaggle'', result_status = SrcSucceeded,
        result_records = [jokic_no_team]\<rparr>]"

definition empty_store :: store where
  "empty_store = \<lparr>version = 0, committed = []\<rparr>"

section \<open>Dashboard: what the season selector can change\<close>

text \<open>
  The cell text follows the double, not the decimal: \<^verbatim>\<open>0.4065 * 100\<close> is a double just below
  40.65 and prints as 40.6.
\<close>

lemma toFixed_rounds_the_double:
  "toFixed (double_times (to_double 0.4065) (to_double 100)) 1 = ''40.6''"
  by code_simp

lemma map_index_length: "length (map_index f xs) = length xs"
  by (simp add: map_index_def)

lemma map_index_nth: "i < length xs \<Longrightarrow> map_index f xs ! i = f i (xs ! i)"
  by (simp add: map_index_def nth_enumerate_eq)

lemma shown_rows_resolved:
  "shown_rows (Dashboard m s (query_resolved d)) = map_index player_row (topPlayers d)"
  by (simp add: shown_rows_def Dashboard_def query_resolved_def)

text \<open>
  Claim C8. The data the dashboard displays does not depend on the selected season: for any two
  values of the season selector the query has the same key and resolves to the same object,
  and the rendered page shows the same \<^verbatim>\<open>topPlayers\<close>, \<^verbatim>\<open>seasonStats\<close>,
  \<^verbatim>\<open>positionDistribution\<close> and \<^verbatim>\<open>teamPerformance\<close> (the mock arrays) and the same table rows,
  whatever the query has delivered.
\<close>

theorem dashboard_data_ignores_season:
  "dashboardQueryKey m s1 = dashboardQueryKey m s2
   \<and> dashboardQueryFn m s1 = dashboardQueryFn m s2
   \<and> shown_datasets (Dashboard_loaded m s1) = shown_datasets (Dashboard_loaded m s2)
   \<and> shown_datasets (Dashboard_loaded m s1) =
       Some \<lparr>shown_topPlayers = topPlayers mock_dashboardData,
             shown_seasonStats = seasonStats mock_dashboardData,
             shown_positionDistribution = positionDistribution mock_dashboardData,
             shown_teamPerformance = teamPerformance mock_dashboardData\<rparr>
   \<and> shown_datasets (Dashboard m s1 q) = shown_datasets (Dashboard m s2 q)
   \<and> shown_rows (Dashboard m s1 q) = shown_rows (Dashboard m s2 q)"
  by (simp add: shown_datasets_def shown_rows_def Dashboard_loaded_def Dashboard_def
      query_resolved_def dashboardQueryFn_def dashboardQueryKey_def split: option.splits)

theorem dashboard_data_ignores_season_witness:
  "shown_datasets (Dashboard_loaded ''ppg'' ''2020'') = shown_datasets (Dashboard_loaded ''ppg'' ''2024'')
   \<and> dashboardQueryFn ''ppg'' ''2020'' = dashboardQueryFn ''ppg'' ''2024''
   \<and> shown_rows (Dashboard ''ppg'' ''2020'' query_pending) =
       shown_rows (Dashboard ''ppg'' ''2024'' query_pending)"
  using dashboard_data_ignores_season [of "''ppg''" "''2020''" "''2024''" query_pending]
  by blast

text \<open>
  Claim C10. The Top Players table has one row per element of \<^verbatim>\<open>topPlayers\<close>, in the array's
  order: row \<open>i\<close> is built from the \<open>i\<close>-th element and its rank is \<open>i + 1\<close>. The selected
  metric does not enter the rows, so another metric gives the same table.
\<close>

theorem top_players_table_order:
  "length (shown_rows (Dashboard m s (query_resolved d))) = length (topPlayers d)
   \<and> (\<forall>i < length (topPlayers d).
        shown_rows (Dashboard m s (query_resolved d)) ! i = player_row i (topPlayers d ! i)
        \<and> rank_cell (shown_rows (Dashboard m s (query_resolved d)) ! i) = i + 1
        \<and> player_cell (shown_rows (Dashboard m s (query_resolved d)) ! i) = name (topPlayers d ! i))
   \<and> shown_rows (Dashboard m s (query_resolved d)) = shown_rows (Dashboard m' s (query_resolved d))"
  by (simp add: shown_rows_resolved map_index_length map_index_nth player_row_def)

theorem top_players_table_order_witness:
  "(2::nat) < length (topPlayers mock_dashboardData)
   \<and> rank_cell (shown_rows (Dashboard_loaded ''apg'' ''2024'') ! 2) = 3
   \<and> player_cell (shown_rows (Dashboard_loaded ''apg'' ''2024'') ! 2) =
       ''Luka Don'' @ [CHR 0xC4, CHR 0x8D] @ ''i'' @ [CHR 0xC4, CHR 0x87]
   \<and> shown_rows (Dashboard_loaded ''apg'' ''2024'') = shown_rows (Dashboard_loaded ''ppg'' ''2024'')"
proof -
  let ?rows = "shown_rows (Dashboard ''apg'' ''2024'' (query_resolved mock_dashboardData))"
  have len: "(2::nat) < length (topPlayers mock_dashboardData)"
    by (simp add: mock_dashboardData_def)
  have third: "name (topPlayers mock_dashboardData ! 2) =
      ''Luka Don'' @ [CHR 0xC4, CHR 0x8D] @ ''i'' @ [CHR 0xC4, CHR 0x87]"
    by (simp add: mock_dashboardData_def)
  note order = top_players_table_order [of "''apg''" "''2024''" mock_dashboardData "''ppg''"]
  from order len have "rank_cell (?rows ! 2) = 2 + 1"
    and "player_cell (?rows ! 2) = name (topPlayers mock_dashboardData ! 2)"
    by blast+
  moreover from order
  have "?rows = shown_rows (Dashboard ''ppg'' ''2024'' (query_resolved mock_dashboardData))"
    by blast
  ultimately show ?thesis
    using len third by (simp add: Dashboard_loaded_def dashboardQueryFn_def)
qed

section \<open>Data collection: the start handler\<close>

lemma map_of_upsert: "map_of (upsert i t ts) i = Some t"
  by (induction ts) auto

lemma set_upsert: "set (upsert i t ts) \<subseteq> insert (i, t) (set ts)"
  by (induction ts) (auto split: if_splits)

lemma no_error_upsert:
  assumes "kind t \<noteq> ToastError" and "ToastError \<notin> kind ` snd ` set ts"
  shows "ToastError \<notin> kind ` snd ` set (upsert i t ts)"
proof
  assume "ToastError \<in> kind ` snd ` set (upsert i t ts)"
  then obtain j u where ju: "(j, u) \<in> set (upsert i t ts)" and k: "kind u = ToastError"
    by force
  from ju set_upsert [of i t ts] have "(j, u) = (i, t) \<or> (j, u) \<in> set ts" by auto
  with k assms show False by force
qed

lemma handle_fulfilled:
  "handleStartCollection (Fulfil v) s =
     (Inr Undefined, s\<lparr>isCollecting := False, suspended := suspended s + 1 - 1,
        toasts := upsert ''collection''
          \<lparr>kind = ToastSuccess, message = ''Data collection completed successfully!''\<rparr>
          (upsert ''collection''
             \<lparr>kind = ToastLoading, message = ''Starting data collection...''\<rparr> (toasts s))\<rparr>)"
  by (simp add: handleStartCollection_def handler_before_await_def handler_after_await_def
      js_seq_def try_catch_finally_def setIsCollecting_def toast_loading_def toast_success_def
      toast_error_def show_toast_def await_settled_def js_return_def js_throw_def)

lemma handle_rejected:
  "handleStartCollection (Reject e) s =
     (Inr Undefined, s\<lparr>isCollecting := False, suspended := suspended s + 1 - 1,
        toasts := upsert ''collection''
          \<lparr>kind = ToastError, message = ''Data collection failed. Please try again.''\<rparr>
          (upsert ''collection''
             \<lparr>kind = ToastLoading, message = ''Starting data collection...''\<rparr> (toasts s))\<rparr>)"
  by (simp add: handleStartCollection_def handler_before_await_def handler_after_await_def
      js_seq_def try_catch_finally_def setIsCollecting_def toast_loading_def toast_success_def
      toast_error_def show_toast_def await_settled_def js_return_def js_throw_def)

text \<open>
  Claim C2, as amended. Whatever the awaited call does, the start handler does not throw to its
  caller: it completes with the value \<^verbatim>\<open>undefined\<close>, which is no run identifier, resets
  \<^verbatim>\<open>isCollecting\<close>, and leaves the success toast or, after a rejection, the fixed failure
  toast. The rejection's error is dropped: two different errors leave the same result and the
  same state, so no failure detail can be read back afterwards.
\<close>

theorem start_handler_never_throws:
  "fst (handleStartCollection st s) = Inr Undefined
   \<and> \<not> returns_runId (fst (handleStartCollection st s))
   \<and> \<not> isCollecting (snd (handleStartCollection st s))
   \<and> toast_shown (snd (handleStartCollection st s)) ''collection'' =
       Some (case st of
               Fulfil v \<Rightarrow>
                 \<lparr>kind = ToastSuccess, message = ''Data collection completed successfully!''\<rparr>
             | Reject err \<Rightarrow>
                 \<lparr>kind = ToastError, message = ''Data collection failed. Please try again.''\<rparr>)
   \<and> handleStartCollection (Reject e) s = handleStartCollection (Reject e') s"
  by (cases st)
    (simp_all add: handle_fulfilled handle_rejected returns_runId_def toast_shown_def
      map_of_upsert)

theorem start_handler_never_throws_witness:
  "fst (handleStartCollection (Reject (JsError ''server_error'')) initial_state) = Inr Undefined
   \<and> \<not> isCollecting (snd (handleStartCollection (Reject (JsError ''server_error'')) initial_state))"
  using start_handler_never_throws [of "Reject (JsError ''server_error'')" initial_state]
  by blast

text \<open>
  Claim C2, as stated, fails: started from the initial page state, with the promise the source
  awaits, the handler completes with \<^verbatim>\<open>undefined\<close>, which is no run identifier. Were the
  awaited call to reject, two different errors would leave the same state behind, so the
  failure detail could not be read back.
\<close>

theorem start_handler_no_runId:
  "map_option fst (startCollection initial_state) = Some (Inr Undefined)
   \<and> map_option (\<lambda>r. returns_runId (fst r)) (startCollection initial_state) = Some False
   \<and> snd (handleStartCollection (Reject (JsError ''rate_limit_exceeded'')) initial_state) =
     snd (handleStartCollection (Reject (JsError ''connection_timeout'')) initial_state)"
  by (simp add: handle_rejected handle_fulfilled returns_runId_def startCollection_def
      settle_def collection_timers_def)

lemma settle_collection: "settle collection_timers = Some (Fulfil Undefined)"
  by (simp add: settle_def collection_timers_def)

lemma before_await_state:
  "snd (handler_before_await s) =
     s\<lparr>isCollecting := True,
       toasts := upsert ''collection''
         \<lparr>kind = ToastLoading, message = ''Starting data collection...''\<rparr> (toasts s),
       suspended := suspended s + 1\<rparr>"
  by (simp add: handler_before_await_def js_seq_def setIsCollecting_def toast_loading_def
      show_toast_def)

lemma after_await_fulfilled_state:
  "snd (handler_after_await (Fulfil v) s) =
     s\<lparr>suspended := suspended s - 1,
       toasts := upsert ''collection''
         \<lparr>kind = ToastSuccess, message = ''Data collection completed successfully!''\<rparr> (toasts s),
       isCollecting := False\<rparr>"
  by (simp add: handler_after_await_def js_seq_def try_catch_finally_def setIsCollecting_def
      toast_success_def show_toast_def await_settled_def js_return_def)

lemma after_await_resets: "\<not> isCollecting (snd (handler_after_await st s))"
  by (cases st)
    (simp_all add: handler_after_await_def js_seq_def try_catch_finally_def setIsCollecting_def
      toast_success_def toast_error_def show_toast_def await_settled_def js_return_def
      js_throw_def)

lemma app_inv_click: "app_inv a \<Longrightarrow> app_inv (step a ClickStart)"
proof -
  assume inv: "app_inv a"
  show ?thesis
  proof (cases "mounted a \<and> \<not> isCollecting (page a)")
    case False
    then have "step a ClickStart = a" by (auto simp: button_disabled_def)
    with inv show ?thesis by simp
  next
    case True
    with inv have none: "True \<notin> set (owners a)" by (simp add: app_inv_def)
    then have "filter id (owners a) = []" by (auto simp: filter_empty_conv)
    moreover from inv have "ToastError \<notin> kind ` snd ` set (toasts (page a))"
      by (simp add: app_inv_def error_toast_shown_def)
    then have "ToastError \<notin> kind ` snd ` set (upsert ''collection''
         \<lparr>kind = ToastLoading, message = ''Starting data collection...''\<rparr> (toasts (page a)))"
      by (intro no_error_upsert) simp_all
    ultimately show ?thesis
      using True inv
      by (simp add: button_disabled_def before_await_state app_inv_def error_toast_shown_def)
  qed
qed

lemma app_inv_timer: "app_inv a \<Longrightarrow> app_inv (step a TimerFires)"
proof -
  assume inv: "app_inv a"
  show ?thesis
  proof (cases "owners a")
    case Nil
    with inv show ?thesis by simp
  next
    case (Cons own rest)
    from inv have "ToastError \<notin> kind ` snd ` set (toasts (page a))"
      by (simp add: app_inv_def error_toast_shown_def)
    then have ok: "ToastError \<notin> kind ` snd ` set (upsert ''collection''
         \<lparr>kind = ToastSuccess, message = ''Data collection completed successfully!''\<rparr>
         (toasts (page a)))"
      by (intro no_error_upsert) simp_all
    show ?thesis
    proof (cases own)
      case True
      with inv Cons have "filter id rest = []" by (simp add: app_inv_def)
      then have "True \<notin> set rest" by (auto simp: filter_empty_conv)
      with inv Cons True ok show ?thesis
        by (simp add: settle_collection after_await_fulfilled_state app_inv_def
            error_toast_shown_def)
    next
      case False
      with inv Cons ok show ?thesis
        by (auto simp: settle_collection after_await_fulfilled_state app_inv_def
            error_toast_shown_def split: if_splits)
    qed
  qed
qed

lemma app_inv_step: "app_inv a \<Longrightarrow> app_inv (step a ev)"
proof (cases ev)
  case ClickStart
  assume "app_inv a"
  with ClickStart show ?thesis by (simp only: app_inv_click)
next
  case TimerFires
  assume "app_inv a"
  with TimerFires show ?thesis by (simp only: app_inv_timer)
next
  case (SelectSeason v)
  assume "app_inv a"
  with SelectSeason show ?thesis by (simp add: app_inv_def error_toast_shown_def)
next
  case Unmount
  assume "app_inv a"
  with Unmount show ?thesis
    by (auto simp: app_inv_def error_toast_shown_def filter_empty_conv)
next
  case Mount
  assume "app_inv a"
  with Mount show ?thesis by (simp add: app_inv_def error_toast_shown_def)
qed

lemma app_inv_foldl: "app_inv a \<Longrightarrow> app_inv (foldl step a evs)"
  by (induction evs arbitrary: a) (simp_all add: app_inv_step)

lemma app_inv_run: "app_inv (run_events evs)"
  unfolding run_events_def
  by (rule app_inv_foldl)
    (simp add: app_inv_def initial_app_def initial_state_def error_toast_shown_def)

lemma one_mount_step: "one_mount a \<Longrightarrow> Unmount \<noteq> ev \<Longrightarrow> one_mount (step a ev)"
  by (cases ev) (auto simp: one_mount_def settle_collection split: list.splits)

lemma one_mount_foldl:
  "one_mount a \<Longrightarrow> Unmount \<notin> set evs \<Longrightarrow> one_mount (foldl step a evs)"
  by (induction evs arbitrary: a) (auto simp: one_mount_step)

lemma one_mount_run: "Unmount \<notin> set evs \<Longrightarrow> one_mount (run_events evs)"
  unfolding run_events_def
  by (rule one_mount_foldl) (simp_all add: one_mount_def initial_app_def)

lemma one_mount_single_flight:
  assumes "app_inv a" and "one_mount a"
  shows "suspended (page a) \<le> 1 \<and> isCollecting (page a) = (suspended (page a) = 1)"
proof -
  from assms(2) have all: "filter id (owners a) = owners a"
    by (auto simp: one_mount_def filter_id_conv) (metis (full_types))
  with assms(1) have le: "length (owners a) \<le> 1" by (simp add: app_inv_def)
  from assms(2) have "(True \<in> set (owners a)) = (owners a \<noteq> [])"
    by (cases "owners a") (auto simp: one_mount_def) 
  with assms le show ?thesis
    by (cases "owners a") (auto simp: app_inv_def one_mount_def)
qed

lemma start_collection_result:
  "startCollection s =
     Some (Inr Undefined, s\<lparr>isCollecting := False, suspended := suspended s + 1 - 1,
        toasts := upsert ''collection''
          \<lparr>kind = ToastSuccess, message = ''Data collection completed successfully!''\<rparr>
          (upsert ''collection''
             \<lparr>kind = ToastLoading, message = ''Starting data collection...''\<rparr> (toasts s))\<rparr>)"
  by (simp add: startCollection_def settle_collection handle_fulfilled)

text \<open>
  Claim C9, as amended. The promise the handler awaits is fulfilled, never rejected, so from any
  state the handler runs to its end, ends with the success toast and has reset
  \<^verbatim>\<open>isCollecting\<close>; the \<^verbatim>\<open>finally\<close> block resets the flag of the state it runs on whatever the
  awaited promise does. Along every sequence of clicks, timer firings, season selections,
  unmounts and mounts from the first mount, no error toast is ever shown, at most one
  suspended invocation belongs to the current mount, and the flag of the mounted page is set
  exactly while one does. The button is disabled exactly while the flag is set, and a click
  then changes nothing. While the page stays mounted, at most one invocation is in flight at
  all, and the flag is set exactly while one is.
\<close>

theorem collection_handler_always_succeeds:
  "settle collection_timers = Some (Fulfil Undefined)
   \<and> map_option fst (startCollection s) = Some (Inr Undefined)
   \<and> map_option (\<lambda>r. toast_shown (snd r) ''collection'') (startCollection s) =
       Some (Some \<lparr>kind = ToastSuccess, message = ''Data collection completed successfully!''\<rparr>)
   \<and> map_option (\<lambda>r. isCollecting (snd r)) (startCollection s) = Some False
   \<and> \<not> isCollecting (snd (handler_after_await st s))
   \<and> \<not> error_toast_shown (page (run_events evs))
   \<and> suspended (page (run_events evs)) = length (owners (run_events evs))
   \<and> length (filter id (owners (run_events evs))) \<le> 1
   \<and> (mounted (run_events evs) \<longrightarrow>
         isCollecting (page (run_events evs)) = (True \<in> set (owners (run_events evs))))
   \<and> (Unmount \<notin> set evs \<longrightarrow>
         suspended (page (run_events evs)) \<le> 1
         \<and> isCollecting (page (run_events evs)) = (suspended (page (run_events evs)) = 1))
   \<and> button_disabled s = isCollecting s
   \<and> (isCollecting (page a) \<longrightarrow> step a ClickStart = a)"
proof -
  note inv = app_inv_run [of evs]
  have single: "suspended (page (run_events evs)) \<le> 1
      \<and> isCollecting (page (run_events evs)) = (suspended (page (run_events evs)) = 1)"
    if "Unmount \<notin> set evs"
    using inv one_mount_run [OF that] by (rule one_mount_single_flight)
  from inv have "mounted (run_events evs) \<longrightarrow>
      isCollecting (page (run_events evs)) = (True \<in> set (owners (run_events evs)))"
    by (simp add: app_inv_def split: if_splits)
  with inv single show ?thesis
    by (simp add: settle_collection start_collection_result toast_shown_def map_of_upsert
        after_await_resets app_inv_def button_disabled_def)
qed

lemma run_click: "run_events [ClickStart] =
    \<lparr>page = snd (handler_before_await initial_state), mounted = True, owners = [True]\<rparr>"
  by (simp add: run_events_def initial_app_def initial_state_def button_disabled_def)

theorem collection_handler_always_succeeds_witness:
  "isCollecting (page (run_events [ClickStart]))
   \<and> mounted (run_events [ClickStart])
   \<and> Unmount \<notin> set [ClickStart, ClickStart, TimerFires, ClickStart]
   \<and> step (run_events [ClickStart]) ClickStart = run_events [ClickStart]
   \<and> suspended (page (run_events [ClickStart, ClickStart, TimerFires, ClickStart])) \<le> 1
   \<and> True \<in> set (owners (run_events [ClickStart]))
   \<and> map_option fst (startCollection initial_state) = Some (Inr Undefined)"
proof -
  have c: "isCollecting (page (run_events [ClickStart]))"
    and m: "mounted (run_events [ClickStart])"
    by (simp_all add: run_click before_await_state)
  have u: "Unmount \<notin> set [ClickStart, ClickStart, TimerFires, ClickStart]" by simp
  show ?thesis
    using c m u
      collection_handler_always_succeeds [of initial_state "Fulfil Undefined"
        "[ClickStart, ClickStart, TimerFires, ClickStart]" "run_events [ClickStart]"]
      collection_handler_always_succeeds [of initial_state "Fulfil Undefined"
        "[ClickStart]" "run_events [ClickStart]"]
    by blast
qed

text \<open>
  Claim C9, as stated, fails: the page is left and entered again while the first invocation
  waits for its timer, and a second click starts a second one, so two are in flight; when the
  first one finishes, the flag of the mounted page is still set.
\<close>

theorem second_collection_after_remount:
  "suspended (page (run_events [ClickStart, Unmount, Mount, ClickStart])) = 2
   \<and> owners (run_events [ClickStart, Unmount, Mount, ClickStart]) = [False, True]
   \<and> \<not> button_disabled (page (run_events [ClickStart, Unmount, Mount]))
   \<and> isCollecting (page (run_events [ClickStart, Unmount, Mount, ClickStart, TimerFires]))"
  by (simp add: run_events_def initial_app_def initial_state_def button_disabled_def
      before_await_state after_await_fulfilled_state settle_collection)

section \<open>Collection pipeline: validation outcomes\<close>

lemma record_of_validate: "record_of (validate vr thr r) = r"
  by (simp add: validate_def Let_def)

lemma validate_missing:
  assumes "f \<in> set (required_fields vr)" and "missing r f"
  shows "status (validate vr thr r) = Rejected"
proof -
  from assms have "f \<in> set (filter (missing r) (required_fields vr))" by simp
  then have "filter (missing r) (required_fields vr) \<noteq> []" by (metis empty_iff empty_set)
  then show ?thesis by (simp add: validate_def Let_def)
qed

lemma reconciler_input_member:
  assumes "out \<in> set (reconciler_input vr thr results)"
  shows "status out \<noteq> Rejected \<and> out = validate vr thr (record_of out)"
  using assms by (auto simp: reconciler_input_def record_of_validate)

lemma rejected_not_in_input:
  assumes "status (validate vr thr r) = Rejected"
  shows "r \<notin> record_of ` set (reconciler_input vr thr results)"
proof
  assume "r \<in> record_of ` set (reconciler_input vr thr results)"
  then obtain out where o: "out \<in> set (reconciler_input vr thr results)"
    and r: "r = record_of out"
    by auto
  from reconciler_input_member [OF o] r assms show False by simp
qed

lemma reconcile_merged_from:
  assumes "c \<in> set (reconcile srcs tol conf res outs)"
  shows "set (merged_from c) \<subseteq> set outs"
  using assms by (auto simp: reconcile_def merge_def Let_def)

lemma first_best_member: "first_best better xs = Some x \<Longrightarrow> x \<in> set xs"
  by (induction xs arbitrary: x) (auto split: option.splits if_splits)

lemma candidates_member: "(out, v) \<in> set (candidates f outs) \<Longrightarrow> out \<in> set outs"
  by (auto simp: candidates_def split: option.splits)

lemma select_field_record:
  assumes "select_field srcs tol conf f outs = Some cf"
  shows "contributing_record cf \<in> record_of ` set outs"
proof -
  from assms obtain better out v
    where fb: "first_best better (candidates f outs) = Some (out, v)"
      and cf: "contributing_record cf = record_of out"
    by (auto simp: select_field_def Let_def split: option.splits prod.splits)
  from first_best_member [OF fb] have "out \<in> set outs" by (rule candidates_member)
  with cf show ?thesis by simp
qed

lemma merge_contributing:
  "contributing_record ` set (canonical_fields (merge srcs tol conf k outs))
     \<subseteq> record_of ` set outs"
  by (auto simp: merge_def split: option.splits
      dest: select_field_record [OF sym] select_field_record)

lemma reconcile_contributing:
  assumes "c \<in> set (reconcile srcs tol conf res outs)"
  shows "contributing_record ` set (canonical_fields c) \<subseteq> record_of ` set outs"
proof -
  from assms obtain k where c: "c = merge srcs tol conf k
      (filter (\<lambda>out. res (map record_of outs) (record_of out) = k) outs)"
    by (auto simp: reconcile_def Let_def)
  show ?thesis
    unfolding c
    using merge_contributing [of srcs tol conf k
        "filter (\<lambda>out. res (map record_of outs) (record_of out) = k) outs"]
    by auto
qed

text \<open>
  Claim C6. A raw record that lacks a required field (the field is absent or null) is rejected
  by \<open>validate\<close>. It is not among the records handed to the Reconciler, whatever the sources
  of the run delivered, and so no CanonicalRecord of the run is merged from it or names it as
  the contributing record of a field.
\<close>

theorem missing_required_field_rejected:
  assumes "f \<in> set (required_fields (cfg_rules cfg))" and "missing r f"
  shows "status (validate (cfg_rules cfg) (cfg_max_invalid_fraction cfg) r) = Rejected
     \<and> r \<notin> record_of ` set (reconciler_input (cfg_rules cfg) (cfg_max_invalid_fraction cfg) results)
     \<and> (\<forall>c \<in> set (run_canonical cfg results).
           r \<notin> record_of ` set (merged_from c)
           \<and> r \<notin> contributing_record ` set (canonical_fields c))"
proof -
  let ?input = "reconciler_input (cfg_rules cfg) (cfg_max_invalid_fraction cfg) results"
  have rej: "status (validate (cfg_rules cfg) (cfg_max_invalid_fraction cfg) r) = Rejected"
    using assms by (rule validate_missing)
  then have out: "r \<notin> record_of ` set ?input" by (rule rejected_not_in_input)
  have "r \<notin> record_of ` set (merged_from c)
      \<and> r \<notin> contributing_record ` set (canonical_fields c)"
    if "c \<in> set (run_canonical cfg results)" for c
  proof -
    from that have c: "c \<in> set (reconcile (cfg_sources cfg) (cfg_tolerance cfg)
        (cfg_confidence cfg) (cfg_resolve cfg) ?input)"
      by (simp add: run_canonical_def)
    from reconcile_merged_from [OF c] reconcile_contributing [OF c] out show ?thesis by auto
  qed
  with rej out show ?thesis by blast
qed

lemma sample_input:
  "reconciler_input VALIDATION_RULES (1 / 2) sample_results =
     [validate VALIDATION_RULES (1 / 2) jokic_bad_ppg]"
  by (simp add: reconciler_input_def sample_results_def finished_def validate_def Let_def
      VALIDATION_RULES_def jokic_bad_ppg_def jokic_no_team_def missing_def out_of_range_def
      field_of_def)

lemma sample_merged_from:
  "map merged_from (run_canonical sample_config sample_results) =
     [[validate VALIDATION_RULES (1 / 2) jokic_bad_ppg]]"
  by (simp add: run_canonical_def sample_config_def sample_input reconcile_def merge_def Let_def)

theorem missing_required_field_rejected_witness:
  "''team'' \<in> set (required_fields (cfg_rules sample_config))
   \<and> missing jokic_no_team ''team''
   \<and> status (validate VALIDATION_RULES (1 / 2) jokic_no_team) = Rejected
   \<and> jokic_no_team \<notin> record_of ` set (reconciler_input VALIDATION_RULES (1 / 2) sample_results)
   \<and> length (run_canonical sample_config sample_results) = 1
   \<and> jokic_no_team \<notin> record_of ` set (merged_from (hd (run_canonical sample_config sample_results)))"
proof -
  have req: "''team'' \<in> set (required_fields (cfg_rules sample_config))"
    by (simp add: sample_config_def VALIDATION_RULES_def)
  have mis: "missing jokic_no_team ''team''"
    by (simp add: missing_def field_of_def jokic_no_team_def)
  have len: "length (run_canonical sample_config sample_results) = 1"
    using arg_cong [OF sample_merged_from, of length] by simp
  then have "hd (run_canonical sample_config sample_results)
      \<in> set (run_canonical sample_config sample_results)"
    by (cases "run_canonical sample_config sample_results") simp_all
  with missing_required_field_rejected [OF req mis, of sample_results] req mis len
  show ?thesis by (simp add: sample_config_def)
qed

lemma out_of_range_has_range: "out_of_range vr r f \<Longrightarrow> f \<in> fst ` set (numeric_ranges vr)"
  by (auto simp: out_of_range_def split: option.splits dest: map_of_SomeD intro: rev_image_eqI)

lemma bad_member:
  "f \<in> set (filter (out_of_range vr r) (remdups (map fst (numeric_ranges vr))))
     = out_of_range vr r f"
  using out_of_range_has_range [of vr r f] by auto

lemma bad_required_eq:
  "filter (\<lambda>f. f \<in> set (filter (out_of_range vr r) (remdups (map fst (numeric_ranges vr)))))
     (required_fields vr) = filter (out_of_range vr r) (required_fields vr)"
  by (simp only: bad_member)

lemma validate_present:
  assumes "filter (missing r) (required_fields vr) = []"
    and "out_of_range vr r f"
  shows "validate vr thr r =
     (if thr * of_nat (length (required_fields vr))
           < of_nat (length (filter (out_of_range vr r) (required_fields vr)))
      then \<lparr>record_of = r, status = Rejected,
             violations = map (mk_violation r ''range'')
               (filter (out_of_range vr r) (remdups (map fst (numeric_ranges vr)))),
             substituted = []\<rparr>
      else \<lparr>record_of = r, status = Repaired,
             violations = map (mk_violation r ''range'')
               (filter (out_of_range vr r) (remdups (map fst (numeric_ranges vr)))),
             substituted = map (\<lambda>f. (f, RawNull))
               (filter (out_of_range vr r) (remdups (map fst (numeric_ranges vr))))\<rparr>)"
proof -
  from assms(2)
  have "f \<in> set (filter (out_of_range vr r) (remdups (map fst (numeric_ranges vr))))"
    by (simp only: bad_member)
  then have ne: "filter (out_of_range vr r) (remdups (map fst (numeric_ranges vr))) \<noteq> []"
    by (metis empty_iff empty_set)
  show ?thesis
    unfolding validate_def Let_def bad_required_eq
    using assms(1) ne by simp
qed

lemma substituted_repaired:
  assumes "filter (missing r) (required_fields vr) = []"
    and "out_of_range vr r f"
    and "status (validate vr thr r) = Repaired"
  shows "substituted (validate vr thr r) = map (\<lambda>f. (f, RawNull))
               (filter (out_of_range vr r) (remdups (map fst (numeric_ranges vr))))"
  using assms(3) unfolding validate_present [OF assms(1,2)] by (simp split: if_splits)

lemma substituted_names:
  assumes "filter (missing r) (required_fields vr) = []"
    and "out_of_range vr r f"
    and "status (validate vr thr r) = Repaired"
  shows "fst ` set (substituted (validate vr thr r)) = {g. out_of_range vr r g}"
proof -
  have "fst ` set (substituted (validate vr thr r)) =
      set (filter (out_of_range vr r) (remdups (map fst (numeric_ranges vr))))"
    unfolding substituted_repaired [OF assms] by (simp add: image_image)
  also have "\<dots> = {g. out_of_range vr r g}"
    using bad_member [of _ vr r] by blast
  finally show ?thesis .
qed

text \<open>
  Claim C7, as amended. For a raw record that has every required field and a numeric field
  outside its documented range, \<open>validate\<close> returns \<open>Repaired\<close>, unless more than the
  configured fraction of the required fields are out of range, in which case it returns
  \<open>Rejected\<close>. In the repaired outcome the offending field is substituted by null and is
  absent for the Reconciler, and every field that is within its range is reported as the
  record has it.
\<close>

theorem out_of_range_repaired:
  assumes "\<forall>g \<in> set (required_fields vr). \<not> missing r g"
    and "out_of_range vr r f"
  shows "status (validate vr thr r) =
           (if thr * of_nat (length (required_fields vr))
                 < of_nat (length (filter (out_of_range vr r) (required_fields vr)))
            then Rejected else Repaired)
     \<and> (status (validate vr thr r) = Repaired \<longrightarrow>
           usable_field (validate vr thr r) f = None
           \<and> (f, RawNull) \<in> set (substituted (validate vr thr r))
           \<and> (\<forall>g. \<not> out_of_range vr r g \<longrightarrow>
                 usable_field (validate vr thr r) g
                   = (if missing r g then None else field_of r g)))"
proof -
  from assms(1) have present: "filter (missing r) (required_fields vr) = []"
    by (simp add: filter_empty_conv)
  have st: "status (validate vr thr r) =
           (if thr * of_nat (length (required_fields vr))
                 < of_nat (length (filter (out_of_range vr r) (required_fields vr)))
            then Rejected else Repaired)"
    unfolding validate_present [OF present assms(2)] by simp
  have rest: "usable_field (validate vr thr r) f = None
           \<and> (f, RawNull) \<in> set (substituted (validate vr thr r))
           \<and> (\<forall>g. \<not> out_of_range vr r g \<longrightarrow>
                 usable_field (validate vr thr r) g
                   = (if missing r g then None else field_of r g))"
    if rep: "status (validate vr thr r) = Repaired"
  proof -
    note names = substituted_names [OF present assms(2) rep]
    from names assms(2) have a: "usable_field (validate vr thr r) f = None"
      by (simp add: usable_field_def)
    from assms(2)
    have "f \<in> set (filter (out_of_range vr r) (remdups (map fst (numeric_ranges vr))))"
      by (simp only: bad_member)
    then have b: "(f, RawNull) \<in> set (substituted (validate vr thr r))"
      unfolding substituted_repaired [OF present assms(2) rep] by auto
    have c: "usable_field (validate vr thr r) g = (if missing r g then None else field_of r g)"
      if "\<not> out_of_range vr r g" for g
      using that names
      by (auto simp: usable_field_def record_of_validate missing_def
          split: option.splits raw_value.splits)
    from a b c show ?thesis by blast
  qed
  from st rest show ?thesis by blast
qed

theorem out_of_range_repaired_witness:
  "out_of_range VALIDATION_RULES jokic_bad_ppg ''ppg''
   \<and> field_of jokic_bad_ppg ''ppg'' = Some (RawNumber 72.5)
   \<and> status (validate VALIDATION_RULES (1 / 2) jokic_bad_ppg) = Repaired
   \<and> usable_field (validate VALIDATION_RULES (1 / 2) jokic_bad_ppg) ''ppg'' = None
   \<and> usable_field (validate VALIDATION_RULES (1 / 2) jokic_bad_ppg) ''rpg'' = Some (RawNumber 12.8)
   \<and> status (validate VALIDATION_RULES (1 / 10) jokic_bad_ppg) = Rejected"
proof -
  have present: "\<forall>g \<in> set (required_fields VALIDATION_RULES). \<not> missing jokic_bad_ppg g"
    by (simp add: missing_def VALIDATION_RULES_def jokic_bad_ppg_def field_of_def)
  have ppg: "out_of_range VALIDATION_RULES jokic_bad_ppg ''ppg''"
    and ppg_val: "field_of jokic_bad_ppg ''ppg'' = Some (RawNumber 72.5)"
    by (simp_all add: out_of_range_def VALIDATION_RULES_def jokic_bad_ppg_def field_of_def)
  have one: "length (filter (out_of_range VALIDATION_RULES jokic_bad_ppg)
      (required_fields VALIDATION_RULES)) = 1"
    by (simp add: out_of_range_def VALIDATION_RULES_def jokic_bad_ppg_def field_of_def)
  have rpg: "\<not> out_of_range VALIDATION_RULES jokic_bad_ppg ''rpg''"
    and rpg_val: "field_of jokic_bad_ppg ''rpg'' = Some (RawNumber 12.8)"
    and rpg_pres: "\<not> missing jokic_bad_ppg ''rpg''"
    by (simp_all add: out_of_range_def missing_def VALIDATION_RULES_def jokic_bad_ppg_def
        field_of_def)
  have five: "length (required_fields VALIDATION_RULES) = 5"
    by (simp add: VALIDATION_RULES_def)
  from out_of_range_repaired [OF present ppg, of "1 / 2"]
    out_of_range_repaired [OF present ppg, of "1 / 10"]
  show ?thesis
    using ppg ppg_val one rpg rpg_val rpg_pres five by simp
qed

text \<open>
  Claim C7, as stated, fails: a record whose points-per-game value 72.5 is outside the range
  and whose \<^verbatim>\<open>team\<close> field is missing is rejected, although not more than the configured
  fraction (one half) of its five required fields are invalid, even counting the missing one.
\<close>

theorem out_of_range_with_missing_field_rejected:
  "out_of_range VALIDATION_RULES jokic_no_team ''ppg''
   \<and> \<not> (1 / 2 * of_nat (length (required_fields VALIDATION_RULES))
          < (of_nat (length (filter (\<lambda>f. out_of_range VALIDATION_RULES jokic_no_team f
                                        \<or> missing jokic_no_team f)
                       (required_fields VALIDATION_RULES))) :: rat))
   \<and> status (validate VALIDATION_RULES (1 / 2) jokic_no_team) = Rejected"
  by (simp add: validate_def out_of_range_def missing_def VALIDATION_RULES_def jokic_no_team_def
      field_of_def Let_def)

section \<open>Collection pipeline: a run without accepted records\<close>

lemma reconciler_input_empty:
  assumes "\<forall>sr \<in> set results. finished sr \<longrightarrow>
             (\<forall>r \<in> set (result_records sr). status (validate vr thr r) = Rejected)"
  shows "reconciler_input vr thr results = []"
  using assms by (auto simp: reconciler_input_def filter_empty_conv)

text \<open>
  Claim C4. When no source produced an accepted record, that is every source either failed or
  delivered only records that validation rejects, the run ends in status \<open>failed\<close> with
  outcome \<open>aborted\<close>, and the store after the run is the store before it.
\<close>

theorem all_sources_fail_no_commit:
  assumes "\<forall>sr \<in> set results. finished sr \<longrightarrow>
             (\<forall>r \<in> set (result_records sr).
                status (validate (cfg_rules cfg) (cfg_max_invalid_fraction cfg) r) = Rejected)"
  shows "run_state (fst (finish_run cfg runId base interleaved results st)) = RunFailed
     \<and> outcome (fst (finish_run cfg runId base interleaved results st)) = RunAborted
     \<and> snd (finish_run cfg runId base interleaved results st) = st"
  using reconciler_input_empty [OF assms]
  by (simp add: finish_run_def)

theorem all_sources_fail_no_commit_witness:
  "run_state (fst (finish_run sample_config ''run-1'' 0 id failed_results empty_store)) = RunFailed
   \<and> outcome (fst (finish_run sample_config ''run-1'' 0 id failed_results empty_store)) = RunAborted
   \<and> snd (finish_run sample_config ''run-1'' 0 id failed_results empty_store) = empty_store
   \<and> run_state (fst (finish_run sample_config ''run-2'' 0 id sample_results empty_store)) = RunPartial"
proof -
  have rej: "status (validate VALIDATION_RULES (1 / 2) jokic_no_team) = Rejected"
    by (simp add: validate_def missing_def VALIDATION_RULES_def jokic_no_team_def field_of_def
        Let_def)
  have hyp: "\<forall>sr \<in> set failed_results. finished sr \<longrightarrow>
      (\<forall>r \<in> set (result_records sr).
         status (validate (cfg_rules sample_config) (cfg_max_invalid_fraction sample_config) r)
           = Rejected)"
    using rej by (simp add: failed_results_def finished_def sample_config_def)
  have unfinished: "list_ex (\<lambda>sr. \<not> finished sr) sample_results"
    by (simp add: sample_results_def finished_def)
  have partial: "run_state (fst (finish_run sample_config ''run-2'' 0 id sample_results empty_store))
      = RunPartial"
    using unfinished
    by (simp add: finish_run_def sample_config_def sample_input Let_def commit_def
        empty_store_def)
  from all_sources_fail_no_commit [OF hyp, of "''run-1''" 0 id empty_store] partial
  show ?thesis by simp
qed

end
